theory Spec2Isabelle
  imports Complex_Main
begin

section \<open>Numbers\<close>

text \<open>
  Both programs compute with NumPy's \<^verbatim>\<open>float64\<close>. A finite value is modelled by the
  real number it stands for, and arithmetic on finite values is exact: rounding, overflow
  and the sign of zero are outside this model. What the model keeps of IEEE 754 is what
  decides whether the programs fail: a division by zero raises nothing in NumPy (it only
  warns) and gives an infinity or NaN, NaN propagates through every operation, and every
  comparison with NaN is false.
\<close>

datatype npfloat = Fin real | PInf | NInf | NaN

fun np_neg :: "npfloat \<Rightarrow> npfloat" where
  "np_neg (Fin a) = Fin (- a)"
| "np_neg PInf = NInf"
| "np_neg NInf = PInf"
| "np_neg NaN = NaN"

fun np_add :: "npfloat \<Rightarrow> npfloat \<Rightarrow> npfloat" where
  "np_add NaN _ = NaN"
| "np_add _ NaN = NaN"
| "np_add (Fin a) (Fin b) = Fin (a + b)"
| "np_add PInf NInf = NaN"
| "np_add NInf PInf = NaN"
| "np_add PInf _ = PInf"
| "np_add _ PInf = PInf"
| "np_add NInf _ = NInf"
| "np_add _ NInf = NInf"

definition np_sub :: "npfloat \<Rightarrow> npfloat \<Rightarrow> npfloat" where
  "np_sub a b = np_add a (np_neg b)"

fun np_mul :: "npfloat \<Rightarrow> npfloat \<Rightarrow> npfloat" where
  "np_mul NaN _ = NaN"
| "np_mul _ NaN = NaN"
| "np_mul (Fin a) (Fin b) = Fin (a * b)"
| "np_mul (Fin a) PInf = (if a = 0 then NaN else if 0 < a then PInf else NInf)"
| "np_mul (Fin a) NInf = (if a = 0 then NaN else if 0 < a then NInf else PInf)"
| "np_mul PInf (Fin b) = (if b = 0 then NaN else if 0 < b then PInf else NInf)"
| "np_mul NInf (Fin b) = (if b = 0 then NaN else if 0 < b then NInf else PInf)"
| "np_mul PInf PInf = PInf"
| "np_mul NInf NInf = PInf"
| "np_mul PInf NInf = NInf"
| "np_mul NInf PInf = NInf"

fun np_div :: "npfloat \<Rightarrow> npfloat \<Rightarrow> npfloat" where
  "np_div NaN _ = NaN"
| "np_div _ NaN = NaN"
| "np_div (Fin a) (Fin b) =
     (if b \<noteq> 0 then Fin (a / b)
      else if 0 < a then PInf else if a < 0 then NInf else NaN)"
| "np_div (Fin a) _ = Fin 0"
| "np_div PInf (Fin b) = (if 0 \<le> b then PInf else NInf)"
| "np_div NInf (Fin b) = (if 0 \<le> b then NInf else PInf)"
| "np_div _ _ = NaN"

fun np_abs :: "npfloat \<Rightarrow> npfloat" where
  "np_abs (Fin a) = Fin \<bar>a\<bar>"
| "np_abs NaN = NaN"
| "np_abs _ = PInf"

fun np_lt :: "npfloat \<Rightarrow> npfloat \<Rightarrow> bool" where
  "np_lt NaN _ = False"
| "np_lt _ NaN = False"
| "np_lt (Fin a) (Fin b) = (a < b)"
| "np_lt _ NInf = False"
| "np_lt PInf _ = False"
| "np_lt _ _ = True"

definition np_gt :: "npfloat \<Rightarrow> npfloat \<Rightarrow> bool" where
  "np_gt a b = np_lt b a"

fun np_sqrt :: "npfloat \<Rightarrow> npfloat" where
  "np_sqrt (Fin a) = (if a < 0 then NaN else Fin (sqrt a))"
| "np_sqrt PInf = PInf"
| "np_sqrt _ = NaN"

text \<open>Python's \<^verbatim>\<open>sum\<close>: starts at 0 and adds from the left.\<close>

definition np_sum :: "npfloat list \<Rightarrow> npfloat" where
  "np_sum xs = foldl np_add (Fin 0) xs"

section \<open>The ANOVA engine (\<^verbatim>\<open>AnovaApp.perform_anova\<close>)\<close>

text \<open>
  A group is the array of the numeric values of one column: finite numbers, since the
  missing values have been dropped. The definitions below are the local variables of
  \<^verbatim>\<open>perform_anova\<close>, as functions of \<^verbatim>\<open>group_list\<close>.
\<close>

definition group_sums :: "real list list \<Rightarrow> real list" where
  "group_sums group_list = map sum_list group_list"

definition group_sq_sums :: "real list list \<Rightarrow> real list" where
  "group_sq_sums group_list = map (\<lambda>g. sum_list (map (\<lambda>x. x ^ 2) g)) group_list"

definition group_sizes :: "real list list \<Rightarrow> nat list" where
  "group_sizes group_list = map length group_list"

definition anova_p :: "real list list \<Rightarrow> nat" where
  "anova_p group_list = length group_list"

definition anova_n :: "real list list \<Rightarrow> nat" where
  "anova_n group_list = sum_list (group_sizes group_list)"

definition total_sum :: "real list list \<Rightarrow> real" where
  "total_sum group_list = sum_list (group_sums group_list)"

definition anova_C :: "real list list \<Rightarrow> npfloat" where
  "anova_C group_list =
     np_div (Fin ((total_sum group_list) ^ 2)) (Fin (real (anova_n group_list)))"

definition total_sq_sum :: "real list list \<Rightarrow> real" where
  "total_sq_sum group_list = sum_list (group_sq_sums group_list)"

definition anova_SST :: "real list list \<Rightarrow> npfloat" where
  "anova_SST group_list = np_sub (Fin (total_sq_sum group_list)) (anova_C group_list)"

definition anova_SSTR :: "real list list \<Rightarrow> npfloat" where
  "anova_SSTR group_list =
     np_sub
       (np_sum (map (\<lambda>(s, sz). np_div (Fin (s ^ 2)) (Fin (real sz)))
                  (zip (group_sums group_list) (group_sizes group_list))))
       (anova_C group_list)"

definition anova_SSE :: "real list list \<Rightarrow> npfloat" where
  "anova_SSE group_list = np_sub (anova_SST group_list) (anova_SSTR group_list)"

definition anova_df_treat :: "real list list \<Rightarrow> int" where
  "anova_df_treat group_list = int (anova_p group_list) - 1"

definition anova_df_error :: "real list list \<Rightarrow> int" where
  "anova_df_error group_list = int (anova_n group_list) - int (anova_p group_list)"

definition anova_df_total :: "real list list \<Rightarrow> int" where
  "anova_df_total group_list = int (anova_n group_list) - 1"

definition anova_MSTR :: "real list list \<Rightarrow> npfloat" where
  "anova_MSTR group_list =
     np_div (anova_SSTR group_list) (Fin (of_int (anova_df_treat group_list)))"

definition anova_MSE :: "real list list \<Rightarrow> npfloat" where
  "anova_MSE group_list =
     np_div (anova_SSE group_list) (Fin (of_int (anova_df_error group_list)))"

definition anova_F :: "real list list \<Rightarrow> npfloat" where
  "anova_F group_list = np_div (anova_MSTR group_list) (anova_MSE group_list)"

text \<open>
  The exceptions the two programs raise or let through. Both user interfaces catch every
  exception at the top of the handler and show its message in an error dialog.
\<close>

datatype error = ValueError string | ZeroDivisionError | ReadError string

text \<open>
  A data frame is its labelled columns, in order. Labels are unique in every frame the
  program builds (\<^verbatim>\<open>read_csv\<close> renames duplicates), so \<^verbatim>\<open>df[col]\<close> for a label taken from
  \<^verbatim>\<open>df.columns\<close> is the column at that position.
\<close>

type_synonym 'c frame = "(string \<times> 'c list) list"

record group_info =
  gi_Group :: "string list"
  gi_Size :: "nat list"
  gi_Sum :: "real list"
  gi_Mean :: "npfloat list"

record anova_result =
  df_treat :: int
  df_error :: int
  df_total :: int
  SSTR :: npfloat
  SSE :: npfloat
  SST :: npfloat
  MSTR :: npfloat
  MSE :: npfloat
  F_calculated :: npfloat
  p_value :: npfloat
  alpha :: npfloat
  reject_H0 :: string

text \<open>
  Lines 169 to 173. \<^verbatim>\<open>py_float\<close> is Python's \<^verbatim>\<open>float\<close> on a string, \<open>None\<close> where it
  raises \<^verbatim>\<open>ValueError\<close>.
\<close>

definition parse_alpha :: "(string \<Rightarrow> npfloat option) \<Rightarrow> string \<Rightarrow> npfloat" where
  "parse_alpha py_float alpha_str =
     (case py_float alpha_str of Some a \<Rightarrow> a | None \<Rightarrow> Fin (5 / 100))"

text \<open>
  Lines 175 and 176. \<^verbatim>\<open>to_numeric\<close> is what \<^verbatim>\<open>pd.to_numeric(errors='coerce')\<close> makes of one
  cell: its number, or \<open>None\<close> for the missing value it puts where the cell is not numeric.
\<close>

definition numeric_only :: "('c \<Rightarrow> real option) \<Rightarrow> 'c frame \<Rightarrow> real option frame" where
  "numeric_only to_numeric df = map (\<lambda>(col, cells). (col, map to_numeric cells)) df"

definition dropna :: "real option list \<Rightarrow> real list" where
  "dropna cells = List.map_filter (\<lambda>c. c) cells"

definition valid_cols :: "real option frame \<Rightarrow> real option frame" where
  "valid_cols num = filter (\<lambda>(col, cells). dropna cells \<noteq> []) num"

text \<open>Lines 181 to 187: the loop that fills \<^verbatim>\<open>group_names\<close> and \<^verbatim>\<open>group_list\<close>.\<close>

fun build_groups :: "real option frame \<Rightarrow> (string \<times> real list) list" where
  "build_groups [] = []"
| "build_groups ((col, cells) # rest) =
     (let vals = dropna cells
      in if 0 < length vals then (col, vals) # build_groups rest else build_groups rest)"

text \<open>Lines 192 to 203.\<close>

definition make_group_info :: "(string \<times> real list) list \<Rightarrow> group_info" where
  "make_group_info groups =
     \<lparr> gi_Group = map fst groups,
       gi_Size = map (\<lambda>(gname, gvals). length gvals) groups,
       gi_Sum = map (\<lambda>(gname, gvals). sum_list gvals) groups,
       gi_Mean = map (\<lambda>(gname, gvals).
                   np_div (Fin (sum_list gvals)) (Fin (real (length gvals)))) groups \<rparr>"

text \<open>
  Lines 205 to 246. \<^verbatim>\<open>f_oneway\<close> is \<^verbatim>\<open>scipy.stats.f_oneway\<close>, which gives the pair of its
  own F statistic and the p-value (on degenerate data it warns and gives NaN).
\<close>

definition anova_table ::
  "(real list list \<Rightarrow> npfloat \<times> npfloat) \<Rightarrow> npfloat \<Rightarrow> real list list \<Rightarrow> anova_result" where
  "anova_table f_oneway a group_list =
     (let (f_stat, pv) = f_oneway group_list
      in \<lparr> df_treat = anova_df_treat group_list,
           df_error = anova_df_error group_list,
           df_total = anova_df_total group_list,
           SSTR = anova_SSTR group_list,
           SSE = anova_SSE group_list,
           SST = anova_SST group_list,
           MSTR = anova_MSTR group_list,
           MSE = anova_MSE group_list,
           F_calculated = anova_F group_list,
           p_value = pv,
           alpha = a,
           reject_H0 = (if np_lt pv a then ''Yes'' else ''No'') \<rparr>)"

text \<open>Lines 189 to 246: from the groups that were built to the two result tables.\<close>

definition anova_of_groups ::
  "(real list list \<Rightarrow> npfloat \<times> npfloat) \<Rightarrow> npfloat \<Rightarrow> (string \<times> real list) list
     \<Rightarrow> error + (group_info \<times> anova_result)" where
  "anova_of_groups f_oneway a groups =
     (let group_list = map snd groups
      in if length group_list < 2
         then Inl (ValueError ''At least two groups are required for ANOVA.'')
         else Inr (make_group_info groups, anova_table f_oneway a group_list))"

text \<open>
  The whole of \<^verbatim>\<open>perform_anova\<close>, from the text of the \<open>\<alpha>\<close> entry and the loaded frame.
  \<^verbatim>\<open>py_strip\<close> is Python's \<^verbatim>\<open>str.strip\<close>. \<open>Inl\<close> is the exception that reaches the handler
  at line 252.
\<close>

definition perform_anova ::
  "(string \<Rightarrow> string) \<Rightarrow> (string \<Rightarrow> npfloat option) \<Rightarrow> ('c \<Rightarrow> real option)
     \<Rightarrow> (real list list \<Rightarrow> npfloat \<times> npfloat) \<Rightarrow> string \<Rightarrow> 'c frame
     \<Rightarrow> error + (group_info \<times> anova_result)" where
  "perform_anova py_strip py_float to_numeric f_oneway alpha_entry df =
     (let alpha_str = py_strip alpha_entry;
          a = parse_alpha py_float alpha_str;
          num = numeric_only to_numeric df;
          valid = valid_cols num
      in if length valid < 2
         then Inl (ValueError ''At least two columns must contain numeric data.'')
         else anova_of_groups f_oneway a (build_groups valid))"

section \<open>Loading the table (\<^verbatim>\<open>AnovaApp.load_csv\<close>)\<close>

text \<open>Python's \<^verbatim>\<open>str\<close> of a natural number, for the f-strings that build labels.\<close>

definition digit_char :: "nat \<Rightarrow> char" where
  "digit_char d = ''0123456789'' ! d"

function str_of_nat :: "nat \<Rightarrow> string" where
  "str_of_nat i =
     (if i < 10 then [digit_char i] else str_of_nat (i div 10) @ [digit_char (i mod 10)])"
  by pat_completeness auto
termination
  by (relation "measure (\<lambda>i. i)") auto

definition group_label :: "nat \<Rightarrow> string" where
  "group_label i = ''Group'' @ str_of_nat i"

text \<open>
  \<^verbatim>\<open>df.columns = names\<close>: pandas raises \<^verbatim>\<open>ValueError\<close> (a length mismatch) unless there is
  one name for each column.
\<close>

definition set_columns :: "string list \<Rightarrow> 'c frame \<Rightarrow> error + 'c frame" where
  "set_columns names df =
     (if length names \<noteq> length df then Inl (ValueError ''Length mismatch'')
      else Inr (zip names (map snd df)))"

text \<open>\<^verbatim>\<open>df.reset_index(inplace=True)\<close>: the index becomes the first column.\<close>

definition reset_index :: "string \<times> 'c list \<Rightarrow> 'c frame \<Rightarrow> 'c frame" where
  "reset_index ix df = ix # df"

text \<open>
  \<^verbatim>\<open>load_csv\<close>, once a file has been chosen. \<^verbatim>\<open>read_csv h\<close> is
  \<^verbatim>\<open>pd.read_csv(file_path, header=0 if h else None)\<close>, and \<^verbatim>\<open>read_csv_index h\<close> the same
  call with \<^verbatim>\<open>index_col=0\<close>, which takes the first column of the file out of the frame
  as its index; both are \<open>Inl\<close> where pandas raises. The result is \<^verbatim>\<open>self.df\<close>, as far as
  \<^verbatim>\<open>perform_anova\<close> reads it: its columns.
\<close>

definition load_csv ::
  "(bool \<Rightarrow> error + 'c frame) \<Rightarrow> (bool \<Rightarrow> error + ((string \<times> 'c list) \<times> 'c frame))
     \<Rightarrow> string \<Rightarrow> string \<Rightarrow> error + 'c frame" where
  "load_csv read_csv read_csv_index has_header has_index =
     (if has_index = ''yes'' then
        (if has_header = ''yes'' then
           (case read_csv_index True of Inl e \<Rightarrow> Inl e | Inr (ix, df) \<Rightarrow> Inr df)
         else
           (case read_csv_index False of
              Inl e \<Rightarrow> Inl e
            | Inr (ix, df) \<Rightarrow>
                (let col_count = length df
                 in set_columns (map group_label [0..<col_count + 1]) (reset_index ix df))))
      else
        (if has_header = ''yes'' then read_csv True
         else
           (case read_csv False of
              Inl e \<Rightarrow> Inl e
            | Inr df \<Rightarrow>
                (let col_count = length df
                 in set_columns (map group_label [0..<col_count]) df))))"

section \<open>The data generator (\<^verbatim>\<open>ANOVADataGenerator\<close>)\<close>

text \<open>
  The object \<^verbatim>\<open>__init__\<close> builds. The digits and \<^verbatim>\<open>replications\<close> are Python integers, the
  tolerances Python floats.
\<close>

record generator =
  d1 :: int
  d2 :: int
  m1 :: int
  m2 :: int
  y1 :: int
  y2 :: int
  replications :: int
  tol_mean :: real
  tol_std :: real
  num_decimals :: int
  num_treatments :: int
  target_std :: real

text \<open>\<^verbatim>\<open>__init__\<close>: the division at line 42 is Python's, which raises on a zero divisor.\<close>

definition init_generator ::
  "int \<Rightarrow> int \<Rightarrow> int \<Rightarrow> int \<Rightarrow> int \<Rightarrow> int \<Rightarrow> int \<Rightarrow> real \<Rightarrow> real \<Rightarrow> int \<Rightarrow> error + generator" where
  "init_generator a1 a2 b1 b2 c1 c2 reps tm ts nd =
     (if c2 = 0 then Inl ZeroDivisionError
      else Inr \<lparr> d1 = a1, d2 = a2, m1 = b1, m2 = b2, y1 = c1, y2 = c2,
                 replications = reps, tol_mean = tm, tol_std = ts, num_decimals = nd,
                 num_treatments = max 4 (a1 + a2),
                 target_std = real_of_int (b2 * a2) / real_of_int c2 \<rparr>)"

text \<open>
  \<^verbatim>\<open>np.random.normal(loc, scale, size)\<close>. The source of randomness is a parameter:
  \<^verbatim>\<open>sampler loc scale\<close> draws one variate from a state of the random number generator and
  gives the next state. NumPy raises \<^verbatim>\<open>ValueError\<close> for a negative scale and for a negative
  size before it draws.
\<close>

fun draw_n :: "('rng \<Rightarrow> real \<times> 'rng) \<Rightarrow> nat \<Rightarrow> 'rng \<Rightarrow> real list \<times> 'rng" where
  "draw_n draw 0 rng = ([], rng)"
| "draw_n draw (Suc k) rng =
     (let (x, rng1) = draw rng; (xs, rng2) = draw_n draw k rng1 in (x # xs, rng2))"

definition random_normal ::
  "(real \<Rightarrow> real \<Rightarrow> 'rng \<Rightarrow> real \<times> 'rng) \<Rightarrow> real \<Rightarrow> real \<Rightarrow> int \<Rightarrow> 'rng
     \<Rightarrow> error + (real list \<times> 'rng)" where
  "random_normal sampler loc scale sz rng =
     (if scale < 0 then Inl (ValueError ''scale < 0'')
      else if sz < 0 then Inl (ValueError ''negative dimensions are not allowed'')
      else Inr (draw_n (sampler loc scale) (nat sz) rng))"

text \<open>\<^verbatim>\<open>np.mean\<close>: the sum over the count; NaN (0/0) on an empty array.\<close>

definition np_mean :: "real list \<Rightarrow> npfloat" where
  "np_mean xs = np_div (Fin (sum_list xs)) (Fin (real (length xs)))"

text \<open>
  \<^verbatim>\<open>np.std(xs, ddof=1)\<close>: the sum of the squared deviations from the mean, over
  \<^verbatim>\<open>max(len(xs) - 1, 0)\<close>, and the square root of that.
\<close>

definition np_std_ddof1 :: "real list \<Rightarrow> npfloat" where
  "np_std_ddof1 xs =
     (let arrmean = np_mean xs;
          x = map (\<lambda>v. np_sub (Fin v) arrmean) xs;
          ret = np_sum (map (\<lambda>v. np_mul v v) x);
          rcount = max (int (length xs) - 1) 0
      in np_sqrt (np_div ret (Fin (of_int rcount))))"

text \<open>
  \<^verbatim>\<open>np.round(x, decimals)\<close>: scale by the power of ten, round to the nearest integer with
  ties to the even one (\<^verbatim>\<open>rint\<close>), and scale back.
\<close>

definition round_half_even :: "real \<Rightarrow> int" where
  "round_half_even x =
     (let f = \<lfloor>x\<rfloor>; r = x - of_int f
      in if r < 1 / 2 then f else if 1 / 2 < r then f + 1
         else if even f then f else f + 1)"

fun np_rint :: "npfloat \<Rightarrow> npfloat" where
  "np_rint (Fin a) = Fin (of_int (round_half_even a))"
| "np_rint v = v"

definition np_round :: "int \<Rightarrow> npfloat \<Rightarrow> npfloat" where
  "np_round decimals v =
     (if 0 \<le> decimals
      then np_div (np_rint (np_mul v (Fin (10 ^ nat decimals)))) (Fin (10 ^ nat decimals))
      else np_mul (np_rint (np_div v (Fin (10 ^ nat (- decimals))))) (Fin (10 ^ nat (- decimals))))"

text \<open>Lines 50 to 55 of \<^verbatim>\<open>generate_observations\<close>, on the array that was drawn.\<close>

definition needs_rescale :: "generator \<Rightarrow> real \<Rightarrow> real \<Rightarrow> real list \<Rightarrow> bool" where
  "needs_rescale g t_mean t_std xs =
     (np_gt (np_abs (np_sub (np_mean xs) (Fin t_mean))) (Fin (tol_mean g))
      \<or> np_gt (np_abs (np_sub (np_std_ddof1 xs) (Fin t_std))) (Fin (tol_std g)))"

definition rescale :: "real \<Rightarrow> real \<Rightarrow> npfloat \<Rightarrow> npfloat \<Rightarrow> npfloat \<Rightarrow> npfloat" where
  "rescale t_mean t_std sample_mean sample_std v =
     np_add (np_mul (np_div (np_sub v sample_mean) sample_std) (Fin t_std)) (Fin t_mean)"

definition adjust_observations :: "generator \<Rightarrow> real \<Rightarrow> real \<Rightarrow> real list \<Rightarrow> npfloat list" where
  "adjust_observations g t_mean t_std xs =
     (let sample_mean = np_mean xs;
          sample_std = np_std_ddof1 xs;
          observations =
            (if needs_rescale g t_mean t_std xs
             then map (rescale t_mean t_std sample_mean sample_std) (map Fin xs)
             else map Fin xs)
      in map (np_round (num_decimals g)) observations)"

definition generate_observations ::
  "(real \<Rightarrow> real \<Rightarrow> 'rng \<Rightarrow> real \<times> 'rng) \<Rightarrow> generator \<Rightarrow> real \<Rightarrow> real \<Rightarrow> 'rng
     \<Rightarrow> error + (npfloat list \<times> 'rng)" where
  "generate_observations sampler g t_mean t_std rng =
     (case random_normal sampler t_mean t_std (replications g) rng of
        Inl e \<Rightarrow> Inl e
      | Inr (xs, rng1) \<Rightarrow> Inr (adjust_observations g t_mean t_std xs, rng1))"

text \<open>
  \<^verbatim>\<open>generate_data\<close>: the loop over \<^verbatim>\<open>range(1, num_treatments + 1)\<close>, which fills the
  dictionary in the order of the treatments; the first exception ends it.
\<close>

definition str_of_int :: "int \<Rightarrow> string" where
  "str_of_int i = (if i < 0 then ''-'' @ str_of_nat (nat (- i)) else str_of_nat (nat i))"

definition treatment_label :: "int \<Rightarrow> string" where
  "treatment_label i = ''Treatment_'' @ str_of_int i"

definition treatment_mean :: "generator \<Rightarrow> int \<Rightarrow> int" where
  "treatment_mean g i = (m2 g * d2 g) + (i * y2 g)"

fun generate_columns ::
  "(real \<Rightarrow> real \<Rightarrow> 'rng \<Rightarrow> real \<times> 'rng) \<Rightarrow> generator \<Rightarrow> int list \<Rightarrow> 'rng
     \<Rightarrow> error + (npfloat frame \<times> 'rng)" where
  "generate_columns sampler g [] rng = Inr ([], rng)"
| "generate_columns sampler g (i # rest) rng =
     (case generate_observations sampler g (real_of_int (treatment_mean g i)) (target_std g) rng of
        Inl e \<Rightarrow> Inl e
      | Inr (observations, rng1) \<Rightarrow>
          (case generate_columns sampler g rest rng1 of
             Inl e \<Rightarrow> Inl e
           | Inr (cols, rng2) \<Rightarrow> Inr ((treatment_label i, observations) # cols, rng2)))"

definition generate_data ::
  "(real \<Rightarrow> real \<Rightarrow> 'rng \<Rightarrow> real \<times> 'rng) \<Rightarrow> generator \<Rightarrow> 'rng \<Rightarrow> error + (npfloat frame \<times> 'rng)" where
  "generate_data sampler g rng = generate_columns sampler g [1..num_treatments g] rng"

text \<open>
  Lines 189 and 190 of \<^verbatim>\<open>DataGeneratorGUI.generate_data\<close>: the generator is built, then
  asked for the table.
\<close>

definition run_generator ::
  "(real \<Rightarrow> real \<Rightarrow> 'rng \<Rightarrow> real \<times> 'rng)
     \<Rightarrow> int \<Rightarrow> int \<Rightarrow> int \<Rightarrow> int \<Rightarrow> int \<Rightarrow> int \<Rightarrow> int \<Rightarrow> real \<Rightarrow> real \<Rightarrow> int \<Rightarrow> 'rng
     \<Rightarrow> error + (npfloat frame \<times> 'rng)" where
  "run_generator sampler a1 a2 b1 b2 c1 c2 reps tm ts nd rng =
     (case init_generator a1 a2 b1 b2 c1 c2 reps tm ts nd of
        Inl e \<Rightarrow> Inl e
      | Inr g \<Rightarrow> generate_data sampler g rng)"

section \<open>The specification's formulas\<close>

text \<open>
  The one-way fixed-effects algorithm as the specification words it, over the real
  numbers: \<open>p\<close> groups, \<open>n\<close> observations in all, and sums over all the observations.
\<close>

definition pooled :: "real list list \<Rightarrow> real list" where
  "pooled groups = concat groups"

definition spec_n :: "real list list \<Rightarrow> nat" where
  "spec_n groups = length (pooled groups)"


definition spec_C :: "real list list \<Rightarrow> real" where
  "spec_C groups = (sum_list (pooled groups)) ^ 2 / real (spec_n groups)"

definition spec_SST :: "real list list \<Rightarrow> real" where
  "spec_SST groups = (\<Sum>x\<leftarrow>pooled groups. x ^ 2) - spec_C groups"

definition spec_SSTR :: "real list list \<Rightarrow> real" where
  "spec_SSTR groups = (\<Sum>g\<leftarrow>groups. (sum_list g) ^ 2 / real (length g)) - spec_C groups"

definition spec_SSE :: "real list list \<Rightarrow> real" where
  "spec_SSE groups = spec_SST groups - spec_SSTR groups"







text \<open>The total sum of squares taken directly, about the mean of all the observations.\<close>

definition spec_SST_direct :: "real list list \<Rightarrow> real" where
  "spec_SST_direct groups =
     (\<Sum>x\<leftarrow>pooled groups. (x - sum_list (pooled groups) / real (spec_n groups)) ^ 2)"






text \<open>
  The columns that keep at least one numeric value after the cell-by-cell coercion.
\<close>

definition numeric_columns :: "('c \<Rightarrow> real option) \<Rightarrow> 'c frame \<Rightarrow> 'c frame" where
  "numeric_columns to_numeric df =
     filter (\<lambda>(col, cells). \<exists>c \<in> set cells. to_numeric c \<noteq> None) df"

section \<open>Stand-ins for the libraries\<close>

text \<open>
  Instances of the library functions the model takes as parameters, to run it on
  concrete inputs: SciPy's answer on degenerate data, a \<^verbatim>\<open>float\<close> that knows two texts,
  and a random source whose state is a counter \<open>k\<close> and whose draw is
  \<open>loc + scale * k\<close>.
\<close>

definition f_oneway_nan :: "real list list \<Rightarrow> npfloat \<times> npfloat" where
  "f_oneway_nan group_list = (NaN, NaN)"


definition float_of_text :: "string \<Rightarrow> npfloat option" where
  "float_of_text s =
     (if s = ''0.01'' then Some (Fin (1 / 100))
      else if s = ''0.05'' then Some (Fin (5 / 100)) else None)"

definition counter_sampler :: "real \<Rightarrow> real \<Rightarrow> nat \<Rightarrow> real \<times> nat" where
  "counter_sampler loc scale k = (loc + scale * real k, Suc k)"


definition example_read_csv :: "bool \<Rightarrow> error + real frame" where
  "example_read_csv h =
     Inr [(''0'', [1, 2, 3, 4]), (''1'', [5, 6, 7, 8]), (''2'', [9, 10, 11, 12])]"

definition example_read_csv_index :: "bool \<Rightarrow> error + ((string \<times> real list) \<times> real frame)" where
  "example_read_csv_index h =
     Inr ((''0'', [1, 2, 3, 4]), [(''1'', [5, 6, 7, 8]), (''2'', [9, 10, 11, 12])])"

section \<open>The engine computes the specified algorithm\<close>

lemma foldl_np_add_Fin: "foldl np_add (Fin a) (map Fin xs) = Fin (a + sum_list xs)"
  by (induction xs arbitrary: a) (simp_all add: add.assoc)

lemma np_sum_map_Fin: "np_sum (map Fin xs) = Fin (sum_list xs)"
  by (simp add: np_sum_def foldl_np_add_Fin)

lemma anova_n_pooled: "anova_n gl = spec_n gl"
  by (simp add: anova_n_def spec_n_def pooled_def group_sizes_def length_concat)

lemma total_sum_pooled: "total_sum gl = sum_list (pooled gl)"
  unfolding total_sum_def group_sums_def pooled_def by (induction gl) simp_all

lemma total_sq_sum_pooled: "total_sq_sum gl = (\<Sum>x\<leftarrow>pooled gl. x ^ 2)"
  unfolding total_sq_sum_def group_sq_sums_def pooled_def by (induction gl) simp_all

lemma spec_n_pos: "gl \<noteq> [] \<Longrightarrow> [] \<notin> set gl \<Longrightarrow> 0 < spec_n gl"
  by (cases gl) (auto simp: spec_n_def pooled_def)

lemma anova_C_Fin: "0 < spec_n gl \<Longrightarrow> anova_C gl = Fin (spec_C gl)"
  by (simp add: anova_C_def spec_C_def anova_n_pooled total_sum_pooled)

lemma anova_SST_Fin: "0 < spec_n gl \<Longrightarrow> anova_SST gl = Fin (spec_SST gl)"
  by (simp add: anova_SST_def spec_SST_def anova_C_Fin total_sq_sum_pooled np_sub_def)

lemma treat_terms_Fin:
  "[] \<notin> set gl \<Longrightarrow>
   map (\<lambda>(s, sz). np_div (Fin (s ^ 2)) (Fin (real sz))) (zip (group_sums gl) (group_sizes gl))
     = map Fin (map (\<lambda>g. (sum_list g) ^ 2 / real (length g)) gl)"
  by (induction gl) (auto simp: group_sums_def group_sizes_def)

lemma anova_SSTR_Fin:
  assumes "0 < spec_n gl" and "[] \<notin> set gl"
  shows "anova_SSTR gl = Fin (spec_SSTR gl)"
proof -
  have "anova_SSTR gl =
      np_sub (np_sum (map Fin (map (\<lambda>g. (sum_list g) ^ 2 / real (length g)) gl))) (anova_C gl)"
    unfolding anova_SSTR_def using treat_terms_Fin [OF assms(2)]
    by (rule arg_cong2 [OF _ refl, of _ _ np_sub, OF arg_cong [of _ _ np_sum]])
  also have "\<dots> = Fin (spec_SSTR gl)"
    unfolding np_sum_map_Fin anova_C_Fin [OF assms(1)] spec_SSTR_def by (simp add: np_sub_def)
  finally show ?thesis .
qed

lemma anova_SSE_Fin:
  "0 < spec_n gl \<Longrightarrow> [] \<notin> set gl \<Longrightarrow> anova_SSE gl = Fin (spec_SSE gl)"
  by (simp add: anova_SSE_def spec_SSE_def anova_SST_Fin anova_SSTR_Fin np_sub_def)





section \<open>Zero error variance\<close>











section \<open>Significance level and decision\<close>

lemma perform_anova_alpha:
  "perform_anova py_strip py_float to_numeric f_oneway alpha_entry df =
     (if length (valid_cols (numeric_only to_numeric df)) < 2
      then Inl (ValueError ''At least two columns must contain numeric data.'')
      else anova_of_groups f_oneway (parse_alpha py_float (py_strip alpha_entry))
             (build_groups (valid_cols (numeric_only to_numeric df))))"
  by (simp add: perform_anova_def Let_def)



section \<open>Column names of a headerless file\<close>

text \<open>
  Claim C5. Without a header row: when there is no index column, the columns of the
  frame pandas read are named \<open>Group0\<close>, \<open>Group1\<close>, \<open>\<dots>\<close> by position over their count;
  when there is one, the index pandas took out is put back as the first column and the
  names run from \<open>Group0\<close> over the reduced count plus one, so the last is the
  \<open>Group\<close> of the reduced count.
\<close>

theorem headerless_column_names:
  assumes "has_header \<noteq> ''yes''"
  shows "(has_index \<noteq> ''yes'' \<and> read_csv False = Inr df \<longrightarrow>
           load_csv read_csv read_csv_index has_header has_index
             = Inr (zip (map group_label [0..<length df]) (map snd df)))
       \<and> (has_index = ''yes'' \<and> read_csv_index False = Inr (ix, df) \<longrightarrow>
           load_csv read_csv read_csv_index has_header has_index
             = Inr (zip (map group_label [0..<length df + 1]) (snd ix # map snd df))
           \<and> last (map group_label [0..<length df + 1]) = group_label (length df))"
  using assms by (simp add: load_csv_def set_columns_def reset_index_def Let_def)

theorem headerless_column_names_witness:
  "''no'' \<noteq> ''yes''
   \<and> example_read_csv False
       = Inr [(''0'', [1, 2, 3, 4]), (''1'', [5, 6, 7, 8]), (''2'', [9, 10, 11, 12])]
   \<and> load_csv example_read_csv example_read_csv_index ''no'' ''no''
       = Inr [(''Group0'', [1, 2, 3, 4]), (''Group1'', [5, 6, 7, 8]), (''Group2'', [9, 10, 11, 12])]
   \<and> example_read_csv_index False
       = Inr ((''0'', [1, 2, 3, 4]), [(''1'', [5, 6, 7, 8]), (''2'', [9, 10, 11, 12])])
   \<and> load_csv example_read_csv example_read_csv_index ''no'' ''yes''
       = Inr [(''Group0'', [1, 2, 3, 4]), (''Group1'', [5, 6, 7, 8]), (''Group2'', [9, 10, 11, 12])]"
  using headerless_column_names
      [where has_header = "''no''" and has_index = "''no''" and read_csv = example_read_csv
        and read_csv_index = example_read_csv_index
        and df = "[(''0'', [1, 2, 3, 4]), (''1'', [5, 6, 7, 8]), (''2'', [9, 10, 11, 12])]"]
    headerless_column_names
      [where has_header = "''no''" and has_index = "''yes''" and read_csv = example_read_csv
        and read_csv_index = example_read_csv_index and ix = "(''0'', [1, 2, 3, 4])"
        and df = "[(''1'', [5, 6, 7, 8]), (''2'', [9, 10, 11, 12])]"]
  by (simp add: example_read_csv_def example_read_csv_index_def group_label_def digit_char_def
      upt_rec)

section \<open>Validation errors\<close>

lemma dropna_empty:
  "dropna (map to_numeric cells) = [] \<longleftrightarrow> (\<forall>c \<in> set cells. to_numeric c = None)"
  by (induction cells) (auto simp: dropna_def List.map_filter_simps split: option.splits)

lemma valid_cols_numeric_columns:
  "valid_cols (numeric_only to_numeric df) = numeric_only to_numeric (numeric_columns to_numeric df)"
proof (induction df)
  case Nil
  show ?case by (simp add: valid_cols_def numeric_only_def numeric_columns_def)
next
  case (Cons colm df)
  obtain col cells where colm: "colm = (col, cells)" by (cases colm)
  from Cons show ?case
    unfolding valid_cols_def numeric_only_def numeric_columns_def colm
    by (simp add: dropna_empty)
qed

lemma length_valid_cols:
  "length (valid_cols (numeric_only to_numeric df)) = length (numeric_columns to_numeric df)"
  unfolding valid_cols_numeric_columns by (simp add: numeric_only_def)

lemma build_groups_valid: "build_groups (valid_cols num) = map (\<lambda>(col, cells). (col, dropna cells)) (valid_cols num)"
  by (induction num) (auto simp: valid_cols_def)

text \<open>
  Claim C6. When fewer than two columns keep a numeric value after coercion, the run
  fails with the \<^verbatim>\<open>ValueError\<close> ``At least two columns must contain numeric data'' (the
  program's text ends with a full stop) and computes nothing; with two or more it does
  not fail. The later check fails in the same way, with ``At least two groups are
  required for ANOVA'', whenever fewer than two groups were built.
\<close>

theorem validation_errors:
  "(length (numeric_columns to_numeric df) < 2 \<longrightarrow>
      perform_anova py_strip py_float to_numeric f_oneway alpha_entry df
        = Inl (ValueError (''At least two columns must contain numeric data'' @ ''.'')))
   \<and> (2 \<le> length (numeric_columns to_numeric df) \<longrightarrow>
      \<not> isl (perform_anova py_strip py_float to_numeric f_oneway alpha_entry df))
   \<and> (length groups < 2 \<longrightarrow>
      anova_of_groups f_oneway a groups
        = Inl (ValueError (''At least two groups are required for ANOVA'' @ ''.'')))"
proof (intro conjI impI)
  assume "length (numeric_columns to_numeric df) < 2"
  then show "perform_anova py_strip py_float to_numeric f_oneway alpha_entry df
        = Inl (ValueError (''At least two columns must contain numeric data'' @ ''.''))"
    by (simp add: perform_anova_alpha length_valid_cols)
next
  assume "2 \<le> length (numeric_columns to_numeric df)"
  then have "2 \<le> length (valid_cols (numeric_only to_numeric df))"
    by (simp add: length_valid_cols)
  then show "\<not> isl (perform_anova py_strip py_float to_numeric f_oneway alpha_entry df)"
    by (simp add: perform_anova_alpha anova_of_groups_def build_groups_valid)
next
  assume "length groups < 2"
  then show "anova_of_groups f_oneway a groups
        = Inl (ValueError (''At least two groups are required for ANOVA'' @ ''.''))"
    by (simp add: anova_of_groups_def)
qed

theorem validation_errors_witness:
  "length (numeric_columns id [(''A'', [Some 1, None]), (''B'', [None, None])]) < 2
   \<and> perform_anova id float_of_text id f_oneway_nan ''0.05''
         [(''A'', [Some 1, None]), (''B'', [None, None])]
       = Inl (ValueError ''At least two columns must contain numeric data.'')
   \<and> 2 \<le> length (numeric_columns id [(''A'', [Some 1, None]), (''B'', [None, Some 2])])
   \<and> \<not> isl (perform_anova id float_of_text id f_oneway_nan ''0.05''
         [(''A'', [Some 1, None]), (''B'', [None, Some 2])])
   \<and> length [(''A'', [1 :: real, 2])] < 2
   \<and> anova_of_groups f_oneway_nan (Fin (5 / 100)) [(''A'', [1, 2])]
       = Inl (ValueError ''At least two groups are required for ANOVA.'')"
  using validation_errors
      [where to_numeric = id and df = "[(''A'', [Some 1, None]), (''B'', [None, None])]"
        and py_strip = id and py_float = float_of_text and f_oneway = f_oneway_nan
        and alpha_entry = "''0.05''" and groups = "[(''A'', [1, 2])]" and a = "Fin (5 / 100)"]
    validation_errors
      [where to_numeric = id and df = "[(''A'', [Some 1, None]), (''B'', [None, Some 2])]"
        and py_strip = id and py_float = float_of_text and f_oneway = f_oneway_nan
        and alpha_entry = "''0.05''" and groups = "[(''A'', [1, 2])]" and a = "Fin (5 / 100)"]
  by (simp add: numeric_columns_def)

section \<open>The sum-of-squares identity in exact arithmetic\<close>

text \<open>
  With exact arithmetic on the finite values, the total sum of squares the engine
  returns is the sum of the other two, and it is the sum of the squared deviations of all
  the observations from their mean. What rounding does to either equation is outside
  this model.
\<close>

lemma sum_sq_dev:
  "(\<Sum>x\<leftarrow>xs. (x - m) ^ 2) = (\<Sum>x\<leftarrow>xs. x ^ 2) - 2 * m * sum_list xs + real (length xs) * m ^ 2"
  by (induction xs) (simp_all add: power2_diff algebra_simps)

lemma spec_SST_direct_eq: "0 < spec_n gl \<Longrightarrow> spec_SST_direct gl = spec_SST gl"
  unfolding spec_SST_direct_def spec_SST_def spec_C_def sum_sq_dev spec_n_def
  by (simp add: power2_eq_square field_simps)

lemma sum_of_squares_identity_exact:
  assumes "gl \<noteq> []" and "[] \<notin> set gl"
  shows "anova_SST gl = np_add (anova_SSTR gl) (anova_SSE gl)
       \<and> np_add (anova_SSTR gl) (anova_SSE gl) = Fin (spec_SST_direct gl)"
proof -
  have pos: "0 < spec_n gl" using assms by (rule spec_n_pos)
  show ?thesis
    by (simp add: anova_SST_Fin [OF pos] anova_SSTR_Fin [OF pos assms(2)]
        anova_SSE_Fin [OF pos assms(2)] spec_SSE_def spec_SST_direct_eq [OF pos])
qed

section \<open>What the generator derives from its configuration\<close>

lemma generate_observations_Inr:
  assumes "generate_observations sampler g tm ts rng = Inr (col, rng1)"
  shows "col = adjust_observations g tm ts (fst (draw_n (sampler tm ts) (nat (replications g)) rng))
       \<and> rng1 = snd (draw_n (sampler tm ts) (nat (replications g)) rng)
       \<and> 0 \<le> replications g \<and> 0 \<le> ts"
  using assms
  by (auto simp: generate_observations_def random_normal_def split: if_splits prod.splits)

lemma generate_observations_ok:
  "0 \<le> replications g \<Longrightarrow> 0 \<le> ts \<Longrightarrow>
   generate_observations sampler g tm ts rng
     = Inr (adjust_observations g tm ts (fst (draw_n (sampler tm ts) (nat (replications g)) rng)),
            snd (draw_n (sampler tm ts) (nat (replications g)) rng))"
  by (simp add: generate_observations_def random_normal_def split: prod.split)

lemma generate_columns_ok:
  "0 \<le> replications g \<Longrightarrow> 0 \<le> target_std g \<Longrightarrow>
   \<exists>cols rng1. generate_columns sampler g is rng = Inr (cols, rng1)"
proof (induction "is" arbitrary: rng)
  case Nil
  show ?case by simp
next
  case (Cons i rest)
  let ?r = "snd (draw_n (sampler (real_of_int (treatment_mean g i)) (target_std g))
                  (nat (replications g)) rng)"
  from Cons obtain cols rng1 where "generate_columns sampler g rest ?r = Inr (cols, rng1)"
    by blast
  with Cons.prems show ?case
    by (simp add: generate_observations_ok)
qed

lemma generate_columns_shape:
  "generate_columns sampler g is rng = Inr (cols, rng1) \<Longrightarrow>
   map fst cols = map treatment_label is
   \<and> (\<forall>k < length is. \<exists>r.
         snd (cols ! k) =
           adjust_observations g (real_of_int (treatment_mean g (is ! k))) (target_std g)
             (fst (draw_n (sampler (real_of_int (treatment_mean g (is ! k))) (target_std g))
                    (nat (replications g)) r)))"
proof (induction "is" arbitrary: rng cols)
  case Nil
  then show ?case by simp
next
  case (Cons i rest)
  let ?tm = "real_of_int (treatment_mean g i)"
  from Cons.prems obtain col r1 cols1 where
    obs: "generate_observations sampler g ?tm (target_std g) rng = Inr (col, r1)"
    and rec: "generate_columns sampler g rest r1 = Inr (cols1, rng1)"
    and cols: "cols = (treatment_label i, col) # cols1"
    by (auto split: sum.splits prod.splits)
  from generate_observations_Inr [OF obs]
  have col: "col = adjust_observations g ?tm (target_std g)
      (fst (draw_n (sampler ?tm (target_std g)) (nat (replications g)) rng))" by simp
  from Cons.IH [OF rec] have names: "map fst cols1 = map treatment_label rest"
    and tail: "\<forall>k < length rest. \<exists>r.
         snd (cols1 ! k) =
           adjust_observations g (real_of_int (treatment_mean g (rest ! k))) (target_std g)
             (fst (draw_n (sampler (real_of_int (treatment_mean g (rest ! k))) (target_std g))
                    (nat (replications g)) r))"
    by simp_all
  have "\<exists>r. snd (cols ! k) =
           adjust_observations g (real_of_int (treatment_mean g ((i # rest) ! k))) (target_std g)
             (fst (draw_n (sampler (real_of_int (treatment_mean g ((i # rest) ! k))) (target_std g))
                    (nat (replications g)) r))"
    if "k < length (i # rest)" for k
  proof (cases k)
    case 0
    then show ?thesis using col cols by auto
  next
    case (Suc j)
    with that have "j < length rest" by simp
    with tail Suc cols show ?thesis by simp
  qed
  then show ?case using names cols by simp
qed

lemma nth_upto_1: "k < nat n \<Longrightarrow> [1..n] ! k = 1 + int k"
  by (simp add: nth_upto)

text \<open>
  Claim C7. When the second year digit is not 0, the generator is built with
  \<open>max 4 (d1 + d2)\<close> treatments and the one target standard deviation
  \<open>(m2 * d2) / y2\<close>, and the target mean of treatment \<open>i\<close> is \<open>(m2 * d2) + i * y2\<close>. The
  table has one column for each treatment, in the order of the treatments \<open>1, 2, \<dots>\<close>,
  the column of treatment \<open>i\<close> is named \<open>Treatment_i\<close> and is the adjusted sample drawn
  for that treatment's target mean and the shared standard deviation; the table is
  produced whenever the replication count and the standard deviation are not negative.
\<close>

theorem generator_derived_quantities:
  assumes "c2 \<noteq> 0"
  shows "\<exists>g. init_generator a1 a2 b1 b2 c1 c2 reps tm ts nd = Inr g
       \<and> num_treatments g = max 4 (a1 + a2)
       \<and> target_std g = real_of_int (b2 * a2) / real_of_int c2
       \<and> (\<forall>i. treatment_mean g i = (b2 * a2) + i * c2)
       \<and> (0 \<le> reps \<and> 0 \<le> real_of_int (b2 * a2) / real_of_int c2 \<longrightarrow>
            \<not> isl (run_generator sampler a1 a2 b1 b2 c1 c2 reps tm ts nd rng))
       \<and> (\<forall>table rng1.
            run_generator sampler a1 a2 b1 b2 c1 c2 reps tm ts nd rng = Inr (table, rng1) \<longrightarrow>
              length table = nat (max 4 (a1 + a2))
            \<and> map fst table = map treatment_label [1..max 4 (a1 + a2)]
            \<and> (\<forall>k < nat (max 4 (a1 + a2)). \<exists>r.
                 fst (table ! k) = treatment_label (1 + int k)
               \<and> snd (table ! k) =
                   adjust_observations g (real_of_int ((b2 * a2) + (1 + int k) * c2))
                     (real_of_int (b2 * a2) / real_of_int c2)
                     (fst (draw_n (sampler (real_of_int ((b2 * a2) + (1 + int k) * c2))
                                     (real_of_int (b2 * a2) / real_of_int c2))
                            (nat reps) r))))"
proof -
  define g where "g = \<lparr> d1 = a1, d2 = a2, m1 = b1, m2 = b2, y1 = c1, y2 = c2,
                 replications = reps, tol_mean = tm, tol_std = ts, num_decimals = nd,
                 num_treatments = max 4 (a1 + a2),
                 target_std = real_of_int (b2 * a2) / real_of_int c2 \<rparr>"
  have init: "init_generator a1 a2 b1 b2 c1 c2 reps tm ts nd = Inr g"
    using assms by (simp add: init_generator_def g_def)
  have nt: "num_treatments g = max 4 (a1 + a2)"
    and sd: "target_std g = real_of_int (b2 * a2) / real_of_int c2"
    and rp: "replications g = reps"
    and tmean: "\<And>i. treatment_mean g i = (b2 * a2) + i * c2"
    by (simp_all add: g_def treatment_mean_def)
  have run: "run_generator sampler a1 a2 b1 b2 c1 c2 reps tm ts nd rng
      = generate_columns sampler g [1..max 4 (a1 + a2)] rng"
    by (simp add: run_generator_def init generate_data_def nt)
  have ok: "\<not> isl (run_generator sampler a1 a2 b1 b2 c1 c2 reps tm ts nd rng)"
    if "0 \<le> reps \<and> 0 \<le> real_of_int (b2 * a2) / real_of_int c2"
  proof -
    from that have r0: "0 \<le> replications g" and s0: "0 \<le> target_std g"
      by (simp_all add: rp sd)
    from generate_columns_ok [OF r0 s0, of sampler "[1..max 4 (a1 + a2)]" rng]
    obtain cols r where "generate_columns sampler g [1..max 4 (a1 + a2)] rng = Inr (cols, r)"
      by blast
    then show ?thesis by (simp add: run)
  qed
  have shape: "length table = nat (max 4 (a1 + a2))
            \<and> map fst table = map treatment_label [1..max 4 (a1 + a2)]
            \<and> (\<forall>k < nat (max 4 (a1 + a2)). \<exists>r.
                 fst (table ! k) = treatment_label (1 + int k)
               \<and> snd (table ! k) =
                   adjust_observations g (real_of_int ((b2 * a2) + (1 + int k) * c2))
                     (real_of_int (b2 * a2) / real_of_int c2)
                     (fst (draw_n (sampler (real_of_int ((b2 * a2) + (1 + int k) * c2))
                                     (real_of_int (b2 * a2) / real_of_int c2))
                            (nat reps) r)))"
    if "run_generator sampler a1 a2 b1 b2 c1 c2 reps tm ts nd rng = Inr (table, rng1)"
    for table rng1
  proof -
    from that have gc: "generate_columns sampler g [1..max 4 (a1 + a2)] rng = Inr (table, rng1)"
      by (simp add: run)
    note sh = generate_columns_shape [OF gc]
    from sh have names: "map fst table = map treatment_label [1..max 4 (a1 + a2)]" by simp
    then have "length (map fst table) = length (map treatment_label [1..max 4 (a1 + a2)])"
      by simp
    then have len: "length table = nat (max 4 (a1 + a2))" by simp
    have "\<exists>r. fst (table ! k) = treatment_label (1 + int k)
               \<and> snd (table ! k) =
                   adjust_observations g (real_of_int ((b2 * a2) + (1 + int k) * c2))
                     (real_of_int (b2 * a2) / real_of_int c2)
                     (fst (draw_n (sampler (real_of_int ((b2 * a2) + (1 + int k) * c2))
                                     (real_of_int (b2 * a2) / real_of_int c2))
                            (nat reps) r))"
      if k: "k < nat (max 4 (a1 + a2))" for k
    proof -
      from k have kl: "k < length [1..max 4 (a1 + a2)]" by simp
      from k have nth: "[1..max 4 (a1 + a2)] ! k = 1 + int k" by (rule nth_upto_1)
      from k len have "fst (table ! k) = map fst table ! k" by simp
      also have "\<dots> = treatment_label (1 + int k)"
        unfolding names using kl nth by simp
      finally have lab: "fst (table ! k) = treatment_label (1 + int k)" .
      from sh kl obtain r where "snd (table ! k) =
           adjust_observations g (real_of_int (treatment_mean g ([1..max 4 (a1 + a2)] ! k)))
             (target_std g)
             (fst (draw_n (sampler (real_of_int (treatment_mean g ([1..max 4 (a1 + a2)] ! k)))
                             (target_std g))
                    (nat (replications g)) r))"
        by blast
      then show ?thesis using lab unfolding nth tmean sd rp by blast
    qed
    with len names show ?thesis by blast
  qed
  show ?thesis
    using init nt sd tmean ok shape by blast
qed

theorem generator_derived_quantities_witness:
  "(4 :: int) \<noteq> 0
   \<and> \<not> isl (init_generator 1 5 0 3 2 4 2 (5 / 100) (5 / 100) 2)
   \<and> num_treatments (projr (init_generator 1 5 0 3 2 4 2 (5 / 100) (5 / 100) 2)) = 6
   \<and> target_std (projr (init_generator 1 5 0 3 2 4 2 (5 / 100) (5 / 100) 2)) = 15 / 4
   \<and> treatment_mean (projr (init_generator 1 5 0 3 2 4 2 (5 / 100) (5 / 100) 2)) 1 = 19
   \<and> \<not> isl (run_generator counter_sampler 1 5 0 3 2 4 2 (5 / 100) (5 / 100) 2 0)
   \<and> map fst (fst (projr (run_generator counter_sampler 1 5 0 3 2 4 2 (5 / 100) (5 / 100) 2 0)))
       = [''Treatment_1'', ''Treatment_2'', ''Treatment_3'', ''Treatment_4'', ''Treatment_5'',
          ''Treatment_6'']"
proof -
  let ?run = "run_generator counter_sampler 1 5 0 3 2 4 2 (5 / 100) (5 / 100) 2 (0 :: nat)"
  from generator_derived_quantities [of 4 1 5 0 3 2 2 "5 / 100" "5 / 100" 2 counter_sampler 0]
  obtain g where g: "init_generator 1 5 0 3 2 4 2 (5 / 100) (5 / 100) 2 = Inr g"
    and nt: "num_treatments g = max 4 (1 + 5)"
    and sd: "target_std g = real_of_int (3 * 5) / real_of_int 4"
    and tmean: "\<forall>i. treatment_mean g i = (3 * 5) + i * 4"
    and ok: "(0 :: int) \<le> 2 \<and> 0 \<le> real_of_int (3 * 5) / real_of_int 4 \<longrightarrow> \<not> isl ?run"
    and shape: "\<forall>table rng1. ?run = Inr (table, rng1) \<longrightarrow>
        map fst table = map treatment_label [1..max 4 (1 + 5)]"
    by auto
  from ok have nisl: "\<not> isl ?run" by simp
  then have "?run = Inr (fst (projr ?run), snd (projr ?run))"
    by (cases ?run) simp_all
  with shape have "map fst (fst (projr ?run)) = map treatment_label [1..max 4 (1 + 5)]"
    by blast
  then have names: "map fst (fst (projr ?run))
       = [''Treatment_1'', ''Treatment_2'', ''Treatment_3'', ''Treatment_4'', ''Treatment_5'',
          ''Treatment_6'']"
    by (simp add: treatment_label_def str_of_int_def digit_char_def upto.simps)
  show ?thesis
    unfolding g using nisl names nt sd tmean by simp
qed

section \<open>One correction, then rounding\<close>












section \<open>Configuration errors\<close>

lemma generate_columns_no_draws:
  "replications g = 0 \<Longrightarrow> 0 \<le> target_std g \<Longrightarrow>
   generate_columns sampler g is rng = Inr (map (\<lambda>i. (treatment_label i, [])) is, rng)"
  by (induction "is")
    (simp_all add: generate_observations_def random_normal_def adjust_observations_def)

lemma generate_columns_negative:
  "replications g < 0 \<Longrightarrow> 0 \<le> target_std g \<Longrightarrow> is \<noteq> [] \<Longrightarrow>
   generate_columns sampler g is rng = Inl (ValueError ''negative dimensions are not allowed'')"
  by (cases "is") (simp_all add: generate_observations_def random_normal_def)

text \<open>
  Claim C9, as the specification states it, fails: the generator does not check the
  replication count. With no replications (and the second year digit 4) it returns a
  table of four empty columns.
\<close>

theorem generator_configuration_errors_counterexample:
  "run_generator counter_sampler 1 0 0 3 2 4 0 (5 / 100) (5 / 100) 2 0
     = Inr ([(''Treatment_1'', []), (''Treatment_2'', []), (''Treatment_3'', []),
             (''Treatment_4'', [])], 0)"
  by (simp add: run_generator_def init_generator_def generate_data_def
      generate_observations_def random_normal_def adjust_observations_def
      treatment_label_def str_of_int_def digit_char_def upto.simps)

text \<open>
  Claim C9, amended. When the second year digit is 0 the generator fails with
  \<^verbatim>\<open>ZeroDivisionError\<close> while it is built, whatever the random source. A replication
  count below 1 is not rejected by the generator: with 0 replications (and a standard
  deviation that is not negative) it returns the table of \<open>max 4 (d1 + d2)\<close> empty
  columns and leaves the random source as it was, and a negative count is refused by
  the sampler, with its \<^verbatim>\<open>ValueError\<close>, at the first treatment.
\<close>

theorem generator_configuration_errors:
  "(c2 = 0 \<longrightarrow>
      run_generator sampler a1 a2 b1 b2 c1 c2 reps tm ts nd rng = Inl ZeroDivisionError)
   \<and> (c2 \<noteq> 0 \<and> reps = 0 \<and> 0 \<le> real_of_int (b2 * a2) / real_of_int c2 \<longrightarrow>
      run_generator sampler a1 a2 b1 b2 c1 c2 reps tm ts nd rng
        = Inr (map (\<lambda>i. (treatment_label i, [])) [1..max 4 (a1 + a2)], rng))
   \<and> (c2 \<noteq> 0 \<and> reps < 0 \<and> 0 \<le> real_of_int (b2 * a2) / real_of_int c2 \<longrightarrow>
      run_generator sampler a1 a2 b1 b2 c1 c2 reps tm ts nd rng
        = Inl (ValueError ''negative dimensions are not allowed''))"
proof (intro conjI impI)
  assume "c2 = 0"
  then show "run_generator sampler a1 a2 b1 b2 c1 c2 reps tm ts nd rng = Inl ZeroDivisionError"
    by (simp add: run_generator_def init_generator_def)
next
  assume a: "c2 \<noteq> 0 \<and> reps = 0 \<and> 0 \<le> real_of_int (b2 * a2) / real_of_int c2"
  then show "run_generator sampler a1 a2 b1 b2 c1 c2 reps tm ts nd rng
        = Inr (map (\<lambda>i. (treatment_label i, [])) [1..max 4 (a1 + a2)], rng)"
    by (simp add: run_generator_def init_generator_def generate_data_def
        generate_columns_no_draws)
next
  assume a: "c2 \<noteq> 0 \<and> reps < 0 \<and> 0 \<le> real_of_int (b2 * a2) / real_of_int c2"
  have "[1..max 4 (a1 + a2)] \<noteq> []" by simp
  with a show "run_generator sampler a1 a2 b1 b2 c1 c2 reps tm ts nd rng
        = Inl (ValueError ''negative dimensions are not allowed'')"
    by (simp add: run_generator_def init_generator_def generate_data_def
        generate_columns_negative)
qed

theorem generator_configuration_errors_witness:
  "run_generator counter_sampler 1 0 0 3 2 0 25 (5 / 100) (5 / 100) 2 0 = Inl ZeroDivisionError
   \<and> (8 :: int) \<noteq> 0 \<and> (0 :: real) \<le> real_of_int (3 * 1) / real_of_int 8
   \<and> run_generator counter_sampler 3 1 0 3 2 8 0 (5 / 100) (5 / 100) 2 0
       = Inr ([(''Treatment_1'', []), (''Treatment_2'', []), (''Treatment_3'', []),
             (''Treatment_4'', [])], 0)
   \<and> (- 1 :: int) < 0
   \<and> run_generator counter_sampler 3 1 0 3 2 8 (- 1) (5 / 100) (5 / 100) 2 0
       = Inl (ValueError ''negative dimensions are not allowed'')"
  using generator_configuration_errors
      [of 0 counter_sampler 1 0 0 3 2 25 "5 / 100" "5 / 100" 2 0]
    generator_configuration_errors
      [of 8 counter_sampler 3 1 0 3 2 0 "5 / 100" "5 / 100" 2 0]
    generator_configuration_errors
      [of 8 counter_sampler 3 1 0 3 2 "- 1" "5 / 100" "5 / 100" 2 0]
  by (simp add: treatment_label_def str_of_int_def digit_char_def upto.simps)

section \<open>A single replication\<close>

lemma np_std_single: "np_std_ddof1 [x] = NaN"
  by (simp add: np_std_ddof1_def np_mean_def np_sum_def np_sub_def)

lemma np_mean_single: "np_mean [x] = Fin x"
  by (simp add: np_mean_def)

lemma np_round_NaN: "np_round d NaN = NaN"
  by (simp add: np_round_def)

lemma random_normal_one:
  "0 \<le> ts \<Longrightarrow> random_normal sampler tm ts 1 rng
     = Inr ([fst (sampler tm ts rng)], snd (sampler tm ts rng))"
  by (simp add: random_normal_def split: prod.split)

text \<open>
  Claim C10. With one replication (and a standard deviation the sampler accepts), the
  sample standard deviation of the single draw is NaN and no error is raised: the column
  is returned. When the draw is off the target mean by more than \<open>tol_mean\<close>, the rescaling
  divides by that NaN and the column is NaN; otherwise the column is the rounded draw.
\<close>

theorem single_replication_gives_nan:
  assumes "replications g = 1" and "0 \<le> ts"
  shows "generate_observations sampler g tm ts rng
           = Inr (adjust_observations g tm ts [fst (sampler tm ts rng)], snd (sampler tm ts rng))
       \<and> np_std_ddof1 [fst (sampler tm ts rng)] = NaN
       \<and> (tol_mean g < \<bar>fst (sampler tm ts rng) - tm\<bar> \<longrightarrow>
            adjust_observations g tm ts [fst (sampler tm ts rng)] = [NaN])
       \<and> (\<not> tol_mean g < \<bar>fst (sampler tm ts rng) - tm\<bar> \<longrightarrow>
            adjust_observations g tm ts [fst (sampler tm ts rng)]
              = [np_round (num_decimals g) (Fin (fst (sampler tm ts rng)))])"
proof -
  let ?x = "fst (sampler tm ts rng)"
  have run: "generate_observations sampler g tm ts rng
           = Inr (adjust_observations g tm ts [?x], snd (sampler tm ts rng))"
    by (simp add: generate_observations_def assms(1) random_normal_one [OF assms(2)])
  have cond: "needs_rescale g tm ts [?x] \<longleftrightarrow> tol_mean g < \<bar>?x - tm\<bar>"
    by (simp add: needs_rescale_def np_std_single np_mean_single np_sub_def np_gt_def)
  have resc: "rescale tm ts (np_mean [?x]) (np_std_ddof1 [?x]) (Fin ?x) = NaN"
    by (simp add: rescale_def np_std_single np_mean_single np_sub_def)
  have yes: "tol_mean g < \<bar>?x - tm\<bar> \<Longrightarrow> adjust_observations g tm ts [?x] = [NaN]"
    using resc by (simp add: adjust_observations_def cond np_round_NaN)
  have no: "\<not> tol_mean g < \<bar>?x - tm\<bar> \<Longrightarrow>
      adjust_observations g tm ts [?x] = [np_round (num_decimals g) (Fin ?x)]"
    by (simp add: adjust_observations_def cond)
  show ?thesis using run yes no by (simp add: np_std_single)
qed

theorem single_replication_gives_nan_witness:
  "replications \<lparr> d1 = 1, d2 = 5, m1 = 0, m2 = 3, y1 = 2, y2 = 4, replications = 1,
       tol_mean = 5 / 100, tol_std = 5 / 100, num_decimals = 2, num_treatments = 6,
       target_std = 15 / 4 \<rparr> = 1
   \<and> (0 :: real) \<le> 15 / 4
   \<and> tol_mean \<lparr> d1 = 1, d2 = 5, m1 = 0, m2 = 3, y1 = 2, y2 = 4, replications = 1,
       tol_mean = 5 / 100, tol_std = 5 / 100, num_decimals = 2, num_treatments = 6,
       target_std = 15 / 4 \<rparr> < \<bar>fst (counter_sampler 19 (15 / 4) 1) - 19\<bar>
   \<and> generate_observations counter_sampler
        \<lparr> d1 = 1, d2 = 5, m1 = 0, m2 = 3, y1 = 2, y2 = 4, replications = 1,
          tol_mean = 5 / 100, tol_std = 5 / 100, num_decimals = 2, num_treatments = 6,
          target_std = 15 / 4 \<rparr> 19 (15 / 4) 1
       = Inr ([NaN], 2)"
  using single_replication_gives_nan
    [of "\<lparr> d1 = 1, d2 = 5, m1 = 0, m2 = 3, y1 = 2, y2 = 4, replications = 1,
          tol_mean = 5 / 100, tol_std = 5 / 100, num_decimals = 2, num_treatments = 6,
          target_std = 15 / 4 \<rparr>" "15 / 4" counter_sampler 19 1]
  by (simp add: counter_sampler_def)

end
